theory Spec2Isabelle
  imports Complex_Main "HOL-Library.Sublist"
begin

section \<open>Coastal threat alert system: the anomaly pipeline\<close>

text \<open>
  The development embeds \<^verbatim>\<open>backend/anomaly_model.py\<close> (the rolling z-score detector,
  the isolation-forest wrapper and the labeler), the alert construction of
  \<^verbatim>\<open>backend/main.py\<close> (\<^verbatim>\<open>ingest\<close>) and of \<^verbatim>\<open>simulation/simulate.py\<close>
  (\<^verbatim>\<open>build_alert\<close>).

  Python floats are idealised as real numbers: comparisons, sums and quotients are exact.
  The z-score of a window is also given in double precision, where the rounding decides
  what a constant window yields.
  A dictionary with string keys is a map from strings; \<^verbatim>\<open>d.get(k, v)\<close> is \<open>get_or\<close>.
\<close>

subsection \<open>Metric samples\<close>

type_synonym metrics = "string \<rightharpoonup> real"

definition METRIC_ORDER :: "string list" where
  "METRIC_ORDER =
     [''tide_level_m'', ''wave_height_m'', ''wind_speed_ms'', ''rain_mm'',
      ''turbidity_NTU'', ''chlorophyll_mg_m3'', ''oil_slick_score'']"

definition get_or :: "('k \<rightharpoonup> 'v) \<Rightarrow> 'k \<Rightarrow> 'v \<Rightarrow> 'v" where
  "get_or d k v = (case d k of None \<Rightarrow> v | Some w \<Rightarrow> w)"

subsection \<open>The labeler\<close>

text \<open>
  \<^verbatim>\<open>label_threat\<close> starts from the empty list and runs four \<^verbatim>\<open>if\<close> statements in
  sequence, each appending to the list built so far; the last one reads the list
  (\<^verbatim>\<open>not labels\<close>).
\<close>

definition label_threat :: "metrics \<Rightarrow> metrics \<Rightarrow> real \<Rightarrow> string list" where
  "label_threat mets z if_score =
     (let labels0 = [];
          labels1 =
            (if \<bar>get_or z ''tide_level_m'' 0\<bar> > 2.5 \<and> \<bar>get_or z ''wave_height_m'' 0\<bar> > 2.5
                  \<and> \<bar>get_or z ''wind_speed_ms'' 0\<bar> > 2.0
             then labels0 @ [''possible_flooding''] else labels0);
          labels2 =
            (if \<bar>get_or z ''chlorophyll_mg_m3'' 0\<bar> > 3.0 \<and> \<bar>get_or z ''turbidity_NTU'' 0\<bar> > 2.0
             then labels1 @ [''possible_algal_bloom''] else labels1);
          labels3 =
            (if get_or mets ''oil_slick_score'' 0 > 0.4 \<or> \<bar>get_or z ''oil_slick_score'' 0\<bar> > 3.5
             then labels2 @ [''possible_oil_spill''] else labels2);
          labels4 =
            (if if_score > 0.75 \<and> labels3 = []
             then labels3 @ [''generic_anomaly''] else labels3)
      in labels4)"

text \<open>The four rules as the specification words them, and the list they describe.\<close>

definition flooding_rule :: "metrics \<Rightarrow> bool" where
  "flooding_rule z \<longleftrightarrow>
     \<bar>get_or z ''tide_level_m'' 0\<bar> > 2.5 \<and> \<bar>get_or z ''wave_height_m'' 0\<bar> > 2.5
       \<and> \<bar>get_or z ''wind_speed_ms'' 0\<bar> > 2.0"

definition bloom_rule :: "metrics \<Rightarrow> bool" where
  "bloom_rule z \<longleftrightarrow>
     \<bar>get_or z ''chlorophyll_mg_m3'' 0\<bar> > 3.0 \<and> \<bar>get_or z ''turbidity_NTU'' 0\<bar> > 2.0"

definition oil_rule :: "metrics \<Rightarrow> metrics \<Rightarrow> bool" where
  "oil_rule mets z \<longleftrightarrow>
     get_or mets ''oil_slick_score'' 0 > 0.4 \<or> \<bar>get_or z ''oil_slick_score'' 0\<bar> > 3.5"

definition generic_rule :: "metrics \<Rightarrow> metrics \<Rightarrow> real \<Rightarrow> bool" where
  "generic_rule mets z if_score \<longleftrightarrow>
     \<not> flooding_rule z \<and> \<not> bloom_rule z \<and> \<not> oil_rule mets z \<and> if_score > 0.75"

definition label_spec :: "metrics \<Rightarrow> metrics \<Rightarrow> real \<Rightarrow> string list" where
  "label_spec mets z if_score =
     (if flooding_rule z then [''possible_flooding''] else [])
     @ (if bloom_rule z then [''possible_algal_bloom''] else [])
     @ (if oil_rule mets z then [''possible_oil_spill''] else [])
     @ (if generic_rule mets z if_score then [''generic_anomaly''] else [])"

subsection \<open>The rolling z-score detector\<close>

datatype error =
    ValueError      \<comment> \<open>\<^verbatim>\<open>deque(maxlen=...)\<close> with a negative bound\<close>
  | LoadError       \<comment> \<open>\<^verbatim>\<open>joblib.load\<close> failed: no such file, or an unreadable artifact\<close>
  | TypeError       \<comment> \<open>subscript of a value that has none\<close>
  | IndexError      \<comment> \<open>subscript of an empty list or string\<close>
  | KeyError        \<comment> \<open>subscript of a dictionary by a missing key\<close>
  | InterfaceError  \<comment> \<open>a value SQLite cannot bind as a parameter\<close>

text \<open>
  \<^verbatim>\<open>buffers\<close> is a \<^verbatim>\<open>defaultdict\<close> of \<^verbatim>\<open>defaultdict\<close>s of \<^verbatim>\<open>deque(maxlen=self.window)\<close>:
  reading a (station, metric) pair that was never written yields a fresh empty deque. It
  is a total function with the empty list as the default. The deque constructor raises
  when the bound is negative, which is the error branch of \<open>update\<close>.
\<close>

record RollingZScoreDetector =
  window :: int
  z_thresh :: real
  buffers :: "string \<Rightarrow> string \<Rightarrow> real list"

definition RollingZScoreDetector_init :: "int \<Rightarrow> real \<Rightarrow> RollingZScoreDetector" where
  "RollingZScoreDetector_init w zt = \<lparr>window = w, z_thresh = zt, buffers = (\<lambda>_ _. [])\<rparr>"

text \<open>
  \<^verbatim>\<open>deque.append\<close> on a bounded deque: the item is added on the right, and when the
  deque is then longer than its bound the leftmost item is dropped.
\<close>

definition deque_append :: "int \<Rightarrow> real list \<Rightarrow> real \<Rightarrow> real list" where
  "deque_append maxlen buf x =
     (let buf' = buf @ [x] in if maxlen < int (length buf') then tl buf' else buf')"

definition mean :: "real list \<Rightarrow> real" where
  "mean arr = sum_list arr / real (length arr)"

text \<open>\<^verbatim>\<open>arr.std(ddof=1)\<close>: the divisor is the number of values less one.\<close>

definition std_ddof1 :: "real list \<Rightarrow> real" where
  "std_ddof1 arr =
     sqrt (sum_list (map (\<lambda>v. \<bar>v - mean arr\<bar> ^ 2) arr) / (real (length arr) - 1))"

text \<open>
  The body of the loop of \<^verbatim>\<open>update\<close> for one metric \<open>m\<close>, and the loop over the metrics
  in order; \<open>zscores\<close> and the station's buffers are threaded through.
\<close>

fun update_loop ::
  "int \<Rightarrow> metrics \<Rightarrow> string list \<Rightarrow> metrics \<times> (string \<Rightarrow> real list)
     \<Rightarrow> metrics \<times> (string \<Rightarrow> real list)" where
  "update_loop w mets [] (zscores, bufs) = (zscores, bufs)"
| "update_loop w mets (m # ms) (zscores, bufs) =
     (let x = get_or mets m 0.0;
          buf = deque_append w (bufs m) x;
          bufs' = bufs(m := buf)
      in if length buf < 10 then update_loop w mets ms (zscores(m \<mapsto> 0.0), bufs')
         else
           (let mu = mean buf;
                sd = (if std_ddof1 buf = 0 then 1 / 10 ^ 6 else std_ddof1 buf)
            in update_loop w mets ms (zscores(m \<mapsto> (x - mu) / sd), bufs')))"

definition update ::
  "RollingZScoreDetector \<Rightarrow> string \<Rightarrow> metrics \<Rightarrow> error + (metrics \<times> RollingZScoreDetector)" where
  "update self station_id mets =
     (if window self < 0 then Inl ValueError
      else
        (let (zscores, bufs) =
               update_loop (window self) mets METRIC_ORDER (Map.empty, buffers self station_id)
         in Inr (zscores, self\<lparr>buffers := (buffers self)(station_id := bufs)\<rparr>)))"

text \<open>A sequence of \<^verbatim>\<open>update\<close> calls on one detector, stopping at the first error.\<close>

fun run_updates ::
  "RollingZScoreDetector \<Rightarrow> (string \<times> metrics) list \<Rightarrow> error + RollingZScoreDetector" where
  "run_updates d [] = Inr d"
| "run_updates d ((station_id, mets) # calls) =
     (case update d station_id mets of
        Inl e \<Rightarrow> Inl e
      | Inr (zscores, d') \<Rightarrow> run_updates d' calls)"

definition calls_for :: "string \<Rightarrow> (string \<times> metrics) list \<Rightarrow> nat" where
  "calls_for station_id calls = length (filter (\<lambda>c. fst c = station_id) calls)"

text \<open>The value emitted for a window that already holds the new value \<open>x\<close>.\<close>

definition window_zscore :: "real list \<Rightarrow> real \<Rightarrow> real" where
  "window_zscore buf x =
     (if length buf < 10 then 0
      else (x - mean buf) / (if std_ddof1 buf = 0 then 1 / 10 ^ 6 else std_ddof1 buf))"

subsection \<open>The z-score in double precision\<close>

text \<open>
  numpy computes lines 38 to 41 in IEEE 754 binary64. \<open>update\<close> above carries the
  exact value of those lines; what follows is the same computation with every operation
  rounded.

  \<open>fl\<close> rounds a real number to the nearest number with a 53-bit significand, a tie to
  the even significand. \<open>fl_at e\<close> rounds to a multiple of \<open>2 ^ (e - 52)\<close>, the spacing of
  the doubles whose magnitude lies between \<open>2 ^ e\<close> and \<open>2 ^ (e + 1)\<close>. The exponent range
  is unbounded: overflow and subnormal numbers are left out.
\<close>

definition round_half_even :: "real \<Rightarrow> int" where
  "round_half_even y =
     (let f = \<lfloor>y\<rfloor>
      in if y - of_int f < 1 / 2 then f
         else if 1 / 2 < y - of_int f then f + 1
         else if even f then f else f + 1)"

definition fl_at :: "int \<Rightarrow> real \<Rightarrow> real" where
  "fl_at e x = of_int (round_half_even (x / 2 powi (e - 52))) * 2 powi (e - 52)"

definition fl :: "real \<Rightarrow> real" where
  "fl x = (if x = 0 then 0 else fl_at \<lfloor>log 2 \<bar>x\<bar>\<rfloor> x)"

definition fadd :: "real \<Rightarrow> real \<Rightarrow> real" where
  "fadd x y = fl (x + y)"

text \<open>
  \<^verbatim>\<open>arr.mean()\<close> and \<^verbatim>\<open>arr.std(ddof=1)\<close> sum with numpy's pairwise summation: fewer
  than 8 values are added in order; up to 128 values are added into eight accumulators,
  block by block, the accumulators are combined as a tree and the values beyond the last
  full block are added in order; a longer array is split near the middle, at a multiple
  of 8. The reduction starts from 0.
\<close>

function acc8 :: "real list \<Rightarrow> real list \<Rightarrow> real list \<times> real list" where
  "acc8 r a = (if 8 \<le> length a then acc8 (map2 fadd r (take 8 a)) (drop 8 a) else (r, a))"
  by pat_completeness auto
termination
  by (relation "measure (\<lambda>(r, a). length a)") auto

function pairwise_sum :: "real list \<Rightarrow> real" where
  "pairwise_sum a =
     (let n = length a
      in if n < 8 then foldl fadd 0 a
         else if n \<le> 128 then
           (let (r, rest) = acc8 (take 8 a) (drop 8 a);
                res = fadd (fadd (fadd (r ! 0) (r ! 1)) (fadd (r ! 2) (r ! 3)))
                           (fadd (fadd (r ! 4) (r ! 5)) (fadd (r ! 6) (r ! 7)))
            in foldl fadd res rest)
         else
           (let n2 = n div 2 - (n div 2) mod 8
            in fadd (pairwise_sum (take n2 a)) (pairwise_sum (drop n2 a))))"
  by pat_completeness auto
termination
  by (relation "measure length") (auto simp: Let_def)

declare acc8.simps [simp del] pairwise_sum.simps [simp del]

definition np_sum :: "real list \<Rightarrow> real" where
  "np_sum a = fadd 0 (pairwise_sum a)"

definition np_mean :: "real list \<Rightarrow> real" where
  "np_mean a = fl (np_sum a / real (length a))"

text \<open>
  \<^verbatim>\<open>arr.std(ddof=1)\<close>: the mean, the deviations, their squares, the sum of the squares
  divided by the count less one, and the square root, each rounded.
\<close>

definition np_std_ddof1 :: "real list \<Rightarrow> real" where
  "np_std_ddof1 a =
     (let arrmean = fl (np_sum a / real (length a));
          x = map (\<lambda>v. fl (v - arrmean)) a;
          x2 = map (\<lambda>v. fl (v * v)) x;
          ret = fl (np_sum x2 / real (length a - 1))
      in fl (sqrt ret))"

text \<open>
  Lines 35 to 41 for a window \<open>buf\<close> of doubles that already holds the new value \<open>x\<close>.
\<close>

definition window_zscore_fl :: "real list \<Rightarrow> real \<Rightarrow> real" where
  "window_zscore_fl buf x =
     (if length buf < 10 then 0
      else
        (let mu = np_mean buf;
             sd = (if np_std_ddof1 buf = 0 then fl (1 / 10 ^ 6) else np_std_ddof1 buf)
         in fl (fl (x - mu) / sd)))"

subsection \<open>The isolation-forest wrapper\<close>

text \<open>
  \<^verbatim>\<open>IFDetector\<close> wraps scikit-learn's \<^verbatim>\<open>IsolationForest\<close> and stores it with joblib;
  both are libraries outside the repository. The wrapper is modelled over them: \<open>'clf\<close>
  is the type of fitted models, \<open>score_samples\<close> the library method of that name (taken
  as a total function of the model and the sample vector), \<open>path_exists\<close> is
  \<^verbatim>\<open>os.path.exists\<close> and \<open>joblib_load\<close> is \<^verbatim>\<open>joblib.load\<close>, which raises when no file is
  there or when the file cannot be unpickled.
\<close>

record 'clf IFDetector =
  clf :: "'clf option"

text \<open>\<^verbatim>\<open>np.clip(a, a_min, a_max)\<close>.\<close>

definition clip :: "real \<Rightarrow> real \<Rightarrow> real \<Rightarrow> real" where
  "clip a a_min a_max = min (max a a_min) a_max"

definition sample_vector :: "metrics \<Rightarrow> real list" where
  "sample_vector mets = map (\<lambda>m. get_or mets m 0.0) METRIC_ORDER"

definition score :: "('clf \<Rightarrow> real list \<Rightarrow> real) \<Rightarrow> 'clf IFDetector \<Rightarrow> metrics \<Rightarrow> real" where
  "score score_samples self mets =
     (case clf self of
        None \<Rightarrow> 0.0
      | Some c \<Rightarrow>
          (let x = sample_vector mets;
               s = score_samples c x;
               norm = (0.5 - s) / 2.0
           in clip norm 0.0 1.0))"

definition load ::
  "(string \<Rightarrow> error + 'clf) \<Rightarrow> 'clf IFDetector \<Rightarrow> string \<Rightarrow> error + 'clf IFDetector" where
  "load joblib_load self path =
     (case joblib_load path of
        Inl e \<Rightarrow> Inl e
      | Inr c \<Rightarrow> Inr (self\<lparr>clf := Some c\<rparr>))"

text \<open>
  The constructor: \<^verbatim>\<open>model_path\<close> is optional, and \<^verbatim>\<open>if model_path and ...\<close> also skips
  the empty string. An error raised by \<^verbatim>\<open>load\<close> leaves the constructor.
\<close>

definition IFDetector_init ::
  "(string \<Rightarrow> bool) \<Rightarrow> (string \<Rightarrow> error + 'clf) \<Rightarrow> string option \<Rightarrow> error + 'clf IFDetector" where
  "IFDetector_init path_exists joblib_load model_path =
     (let self = \<lparr>clf = None\<rparr>
      in case model_path of
           None \<Rightarrow> Inr self
         | Some p \<Rightarrow>
             if p \<noteq> [] \<and> path_exists p then load joblib_load self p else Inr self)"

text \<open>
  The library's fitted forest, as far as \<^verbatim>\<open>score_samples\<close> depends on it: the corrected
  path length of a sample averaged over the trees, \<open>h(x)\<close>, and the normalisation constant
  \<open>c(n)\<close> of the fit-time subsample size. scikit-learn documents \<^verbatim>\<open>score_samples\<close> as the
  opposite of the anomaly score of the original paper (the lower, the more abnormal):
  it returns \<open>- 2 ^ (- h(x) / c(n))\<close>.
\<close>

record forest =
  avg_path_length :: "real list \<Rightarrow> real"
  c_norm :: real

definition outlier_estimate :: "forest \<Rightarrow> real list \<Rightarrow> real" where
  "outlier_estimate f x = 2 powr (- avg_path_length f x / c_norm f)"

definition sklearn_score_samples :: "forest \<Rightarrow> real list \<Rightarrow> real" where
  "sklearn_score_samples f x = - outlier_estimate f x"

subsection \<open>Alerts\<close>

text \<open>
  The \<^verbatim>\<open>anomaly\<close> field of an ingest payload is a dictionary of arbitrary JSON values.
\<close>

datatype jval =
    JNull
  | JBool bool
  | JNum real
  | JStr string
  | JList "jval list"
  | JDict "(string \<times> jval) list"

fun truthy :: "jval \<Rightarrow> bool" where
  "truthy JNull = False"
| "truthy (JBool b) = b"
| "truthy (JNum r) = (r \<noteq> 0)"
| "truthy (JStr s) = (s \<noteq> [])"
| "truthy (JList xs) = (xs \<noteq> [])"
| "truthy (JDict kvs) = (kvs \<noteq> [])"

text \<open>\<^verbatim>\<open>v[0]\<close>: the first item of a list, the first character of a string; a JSON
  object has string keys only, so the key \<^verbatim>\<open>0\<close> is missing; other values have no
  subscript.\<close>

fun subscript0 :: "jval \<Rightarrow> error + jval" where
  "subscript0 (JList (x # xs)) = Inr x"
| "subscript0 (JList []) = Inl IndexError"
| "subscript0 (JStr (c # cs)) = Inr (JStr [c])"
| "subscript0 (JStr []) = Inl IndexError"
| "subscript0 (JDict kvs) = Inl KeyError"
| "subscript0 v = Inl TypeError"

text \<open>\<^verbatim>\<open>s in v\<close> for a string \<open>s\<close>: membership in a list, substring of a string, key of
  a dictionary. It is only evaluated after \<^verbatim>\<open>v[0]\<close> has succeeded.\<close>

fun contains :: "jval \<Rightarrow> string \<Rightarrow> bool" where
  "contains (JList xs) s = (JStr s \<in> set xs)"
| "contains (JStr t) s = sublist s t"
| "contains (JDict kvs) s = (s \<in> fst ` set kvs)"
| "contains v s = False"

text \<open>The values SQLite binds as a statement parameter.\<close>

fun bindable :: "jval \<Rightarrow> bool" where
  "bindable (JList xs) = False"
| "bindable (JDict kvs) = False"
| "bindable v = True"

record IngestPayload =
  source :: "string option"
  timestamp :: string
  station_id :: string
  lat :: "real option"
  lon :: "real option"
  metrics :: metrics
  anomaly :: "(string \<times> jval) list option"

record ('t, 'p) alert =
  alert_timestamp :: string
  alert_station_id :: string
  threat_type :: 't
  severity :: string
  confidence :: real
  alert_payload :: 'p

text \<open>The two tables of the backend, as lists of rows in insertion order.\<close>

record reading_row =
  reading_id :: string
  reading_station_id :: string
  reading_timestamp :: string
  reading_payload :: IngestPayload

record alert_row = "(jval, IngestPayload) alert" +
  alert_id :: string
  acknowledged :: bool

text \<open>The process-wide state of \<^verbatim>\<open>backend/main.py\<close>: the two detectors and the database.\<close>

record 'clf backend =
  det_z :: RollingZScoreDetector
  det_if :: "'clf IFDetector"
  sensor_readings :: "reading_row list"
  alerts :: "alert_row list"

datatype response =
    Status_ok jval               \<comment> \<open>\<^verbatim>\<open>{"status": "ok", "labels": labels}\<close>\<close>
  | Alert_created string jval    \<comment> \<open>\<^verbatim>\<open>{"status": "alert_created", "alert_id": aid, "labels": labels}\<close>\<close>

fun response_labels :: "response \<Rightarrow> jval" where
  "response_labels (Status_ok labels) = labels"
| "response_labels (Alert_created aid labels) = labels"

text \<open>
  \<^verbatim>\<open>ingest\<close>, in three parts. \<open>rid\<close> and \<open>aid\<close> are the two fresh identifiers
  (\<^verbatim>\<open>uuid.uuid4()\<close>). An exception leaves the handler with the state reached so far.

  Lines 75 to 82: the labels are those of the payload when it is already flagged,
  otherwise the detectors run.
\<close>

definition run_detection ::
  "('clf \<Rightarrow> real list \<Rightarrow> real) \<Rightarrow> 'clf backend \<Rightarrow> IngestPayload
     \<Rightarrow> (error + jval) \<times> 'clf backend" where
  "run_detection score_samples st payload =
     (case update (det_z st) (station_id payload) (metrics payload) of
        Inl e \<Rightarrow> (Inl e, st)
      | Inr (z, dz) \<Rightarrow>
          (let st' = st\<lparr>det_z := dz\<rparr>;
               if_score = score score_samples (det_if st') (metrics payload);
               labels = label_threat (metrics payload) z if_score
           in (Inr (JList (map JStr labels)), st')))"

definition ingest_labels ::
  "('clf \<Rightarrow> real list \<Rightarrow> real) \<Rightarrow> 'clf backend \<Rightarrow> IngestPayload
     \<Rightarrow> (error + jval) \<times> 'clf backend" where
  "ingest_labels score_samples st payload =
     (case anomaly payload of
        None \<Rightarrow> run_detection score_samples st payload
      | Some a \<Rightarrow>
          if a \<noteq> [] \<and> truthy (get_or (map_of a) ''is_anomaly'' JNull)
          then (Inr (get_or (map_of a) ''labels'' (JList [])), st)
          else run_detection score_samples st payload)"

text \<open>
  Lines 84 to 107. \<^verbatim>\<open>confidence\<close> is first set to 0.5 and then assigned the score inside
  a \<^verbatim>\<open>try\<close>; \<open>score\<close> has no error branch, so the assignment always takes place.
\<close>

definition ingest_alert ::
  "('clf \<Rightarrow> real list \<Rightarrow> real) \<Rightarrow> string \<Rightarrow> 'clf backend \<Rightarrow> IngestPayload \<Rightarrow> jval
     \<Rightarrow> (error + response) \<times> 'clf backend" where
  "ingest_alert score_samples aid st payload labels =
     (if truthy labels then
        (case subscript0 labels of
           Inl e \<Rightarrow> (Inl e, st)
         | Inr threat \<Rightarrow>
             (let severity0 = ''low'';
                  severity1 =
                    (if contains labels ''possible_oil_spill'' \<or> contains labels ''possible_flooding''
                     then ''high''
                     else if contains labels ''possible_algal_bloom'' then ''medium''
                     else severity0);
                  confidence0 = 0.5 :: real;
                  confidence1 = score score_samples (det_if st) (metrics payload)
              in if \<not> bindable threat then (Inl InterfaceError, st)
                 else
                   (Inr (Alert_created aid labels),
                    st\<lparr>alerts := alerts st @
                      [\<lparr>alert_timestamp = timestamp payload,
                        alert_station_id = station_id payload,
                        threat_type = threat,
                        severity = severity1,
                        confidence = confidence1,
                        alert_payload = payload,
                        alert_id = aid,
                        acknowledged = False\<rparr>]\<rparr>)))
      else (Inr (Status_ok labels), st))"

definition ingest ::
  "('clf \<Rightarrow> real list \<Rightarrow> real) \<Rightarrow> string \<Rightarrow> string \<Rightarrow> 'clf backend \<Rightarrow> IngestPayload
     \<Rightarrow> (error + response) \<times> 'clf backend" where
  "ingest score_samples rid aid st payload =
     (let st1 = st\<lparr>sensor_readings := sensor_readings st @
                  [\<lparr>reading_id = rid, reading_station_id = station_id payload,
                    reading_timestamp = timestamp payload, reading_payload = payload\<rparr>]\<rparr>
      in case ingest_labels score_samples st1 payload of
           (Inl e, st2) \<Rightarrow> (Inl e, st2)
         | (Inr labels, st2) \<Rightarrow> ingest_alert score_samples aid st2 payload labels)"

text \<open>
  The simulator (\<^verbatim>\<open>simulation/simulate.py\<close>) builds its payloads and alerts as
  dictionaries with fixed keys; they are records here. \<^verbatim>\<open>round(x, 3)\<close> rounds to three
  decimals, a tie to the even neighbour.
\<close>

definition py_round :: "real \<Rightarrow> nat \<Rightarrow> real" where
  "py_round x ndigits =
     (let y = x * 10 ^ ndigits;
          f = \<lfloor>y\<rfloor>;
          r = (if y - of_int f < 1 / 2 then f
               else if 1 / 2 < y - of_int f then f + 1
               else if even f then f else f + 1)
      in of_int r / 10 ^ ndigits)"

record station =
  st_station_id :: string
  st_lat :: real
  st_lon :: real

record detectors =
  rolling_z :: metrics
  iforest :: real

record sim_anomaly =
  sim_is_anomaly :: bool
  sim_detectors :: detectors
  sim_labels :: "string list"

record sim_payload =
  sim_source :: string
  sim_timestamp :: string
  sim_station_id :: string
  sim_lat :: real
  sim_lon :: real
  sim_metrics :: metrics
  sim_anomaly :: sim_anomaly

definition build_ingest_payload ::
  "string \<Rightarrow> station \<Rightarrow> metrics \<Rightarrow> metrics \<Rightarrow> real \<Rightarrow> string list \<Rightarrow> sim_payload" where
  "build_ingest_payload now_iso stn mets zscores if_score labels =
     \<lparr>sim_source = ''simulator'',
      sim_timestamp = now_iso,
      sim_station_id = st_station_id stn,
      sim_lat = st_lat stn,
      sim_lon = st_lon stn,
      sim_metrics = mets,
      sim_anomaly =
        \<lparr>sim_is_anomaly = (labels \<noteq> []),
         sim_detectors =
           \<lparr>rolling_z = (\<lambda>k. map_option (\<lambda>v. py_round v 3) (zscores k)),
            iforest = py_round if_score 3\<rparr>,
         sim_labels = labels\<rparr>\<rparr>"

definition build_alert ::
  "station \<Rightarrow> sim_payload \<Rightarrow> string list \<Rightarrow> (string, sim_payload) alert" where
  "build_alert stn ingest_payload labels =
     (let sev0 = ''low'';
          sev =
            (if ''possible_oil_spill'' \<in> set labels \<or> ''possible_flooding'' \<in> set labels
             then ''high''
             else if ''possible_algal_bloom'' \<in> set labels then ''medium''
             else sev0)
      in \<lparr>alert_timestamp = sim_timestamp ingest_payload,
          alert_station_id = st_station_id stn,
          threat_type = (case labels of [] \<Rightarrow> ''generic_anomaly'' | l # ls \<Rightarrow> l),
          severity = sev,
          confidence = max 0.5 (iforest (sim_detectors (sim_anomaly ingest_payload))),
          alert_payload = ingest_payload\<rparr>)"

text \<open>
  One pass of the body of the simulator's loop for a station, up to the alert it writes
  (lines 129 to 146): the alert is built only for a non-empty label list.
\<close>

definition simulate_step ::
  "('clf \<Rightarrow> real list \<Rightarrow> real) \<Rightarrow> string \<Rightarrow> RollingZScoreDetector \<Rightarrow> 'clf IFDetector
     \<Rightarrow> station \<Rightarrow> metrics
     \<Rightarrow> error + (sim_payload \<times> (string, sim_payload) alert option \<times> RollingZScoreDetector)" where
  "simulate_step score_samples now_iso dz dif stn mets =
     (case update dz (st_station_id stn) mets of
        Inl e \<Rightarrow> Inl e
      | Inr (z, dz') \<Rightarrow>
          (let if_score = score score_samples dif mets;
               labels = label_threat mets z if_score;
               ingest_payload = build_ingest_payload now_iso stn mets z if_score labels
           in Inr (ingest_payload,
                   (if labels \<noteq> [] then Some (build_alert stn ingest_payload labels) else None),
                   dz')))"

text \<open>The severity tier as the specification words it.\<close>

definition severity_spec :: "string list \<Rightarrow> string" where
  "severity_spec labels =
     (if ''possible_oil_spill'' \<in> set labels \<or> ''possible_flooding'' \<in> set labels then ''high''
      else if ''possible_algal_bloom'' \<in> set labels then ''medium''
      else ''low'')"

text \<open>The condition of line 77, for stating properties of the two branches.\<close>

definition already_flagged :: "IngestPayload \<Rightarrow> bool" where
  "already_flagged payload =
     (case anomaly payload of
        None \<Rightarrow> False
      | Some a \<Rightarrow> a \<noteq> [] \<and> truthy (get_or (map_of a) ''is_anomaly'' JNull))"

subsection \<open>Sample inputs\<close>

text \<open>
  A backend as \<^verbatim>\<open>main.py\<close> starts it when no model file is present, a reading with an
  oil-slick score of 0.5 and no \<^verbatim>\<open>anomaly\<close> field, the same reading as the simulator
  posts it once flagged, and the simulator's first station.
\<close>

definition fresh_backend :: "unit backend" where
  "fresh_backend =
     \<lparr>det_z = RollingZScoreDetector_init 60 3.0, det_if = \<lparr>clf = None\<rparr>,
      sensor_readings = [], alerts = []\<rparr>"

definition oil_reading :: IngestPayload where
  "oil_reading =
     \<lparr>source = None, timestamp = ''2025-01-01T00:00:00Z'', station_id = ''IN-GJ-001'',
      lat = None, lon = None, metrics = [''oil_slick_score'' \<mapsto> 0.5], anomaly = None\<rparr>"

definition flagged_reading :: IngestPayload where
  "flagged_reading =
     oil_reading\<lparr>anomaly := Some
       [(''is_anomaly'', JBool True),
        (''detectors'', JDict [(''rolling_z'', JDict []), (''iforest'', JNum 0)]),
        (''labels'', JList [JStr ''possible_flooding'', JStr ''possible_oil_spill''])]\<rparr>"

text \<open>
  The double nearest to 0.1, which is what the JSON number \<^verbatim>\<open>0.1\<close> is read as.
\<close>

definition tenth :: real where
  "tenth = fl (1 / 10)"

definition first_station :: station where
  "first_station = \<lparr>st_station_id = ''IN-GJ-001'', st_lat = 21.64, st_lon = 69.61\<rparr>"

section \<open>Properties\<close>

subsection \<open>The labeler\<close>

text \<open>
  C1. For every metrics mapping, z-score mapping and ensemble score (missing keys read
  as 0), \<^verbatim>\<open>label_threat\<close> returns exactly the list obtained by evaluating the four rules
  in their fixed order and appending the label of each rule that fires: flooding, algal
  bloom, oil spill, and the generic fallback only when no earlier rule fired and the
  score exceeds 0.75.
\<close>

theorem label_threat_rules:
  "label_threat mets z if_score = label_spec mets z if_score"
  unfolding label_threat_def label_spec_def generic_rule_def Let_def
  unfolding flooding_rule_def [symmetric] bloom_rule_def [symmetric] oil_rule_def [symmetric]
  by (cases "flooding_rule z"; cases "bloom_rule z"; cases "oil_rule mets z") simp_all

theorem label_threat_rules_witness:
  "label_threat [''oil_slick_score'' \<mapsto> 0.1]
       [''tide_level_m'' \<mapsto> 3.0, ''wave_height_m'' \<mapsto> 3.0, ''wind_speed_ms'' \<mapsto> 2.5] 0.2
     = [''possible_flooding'']"
  using label_threat_rules [of "[''oil_slick_score'' \<mapsto> 0.1]"
      "[''tide_level_m'' \<mapsto> 3.0, ''wave_height_m'' \<mapsto> 3.0, ''wind_speed_ms'' \<mapsto> 2.5]" "0.2"]
  by (simp add: label_spec_def flooding_rule_def bloom_rule_def oil_rule_def
      generic_rule_def get_or_def)

subsection \<open>The rolling windows\<close>

lemma METRIC_ORDER_distinct: "distinct METRIC_ORDER"
  by (simp add: METRIC_ORDER_def)

lemma update_loop_bufs:
  "distinct ms \<Longrightarrow> snd (update_loop w mets ms (zs, bufs)) m =
     (if m \<in> set ms then deque_append w (bufs m) (get_or mets m 0) else bufs m)"
  by (induction ms arbitrary: zs bufs) (auto simp: Let_def)

lemma update_loop_zscores:
  "distinct ms \<Longrightarrow> fst (update_loop w mets ms (zs, bufs)) m =
     (if m \<in> set ms
      then Some (window_zscore (deque_append w (bufs m) (get_or mets m 0)) (get_or mets m 0))
      else zs m)"
  by (induction ms arbitrary: zs bufs) (auto simp: Let_def window_zscore_def)

lemma length_deque_append:
  "0 \<le> w \<Longrightarrow> int (length buf) \<le> w \<Longrightarrow>
   length (deque_append w buf x) = min (Suc (length buf)) (nat w)"
  by (auto simp: deque_append_def Let_def)

text \<open>One call of \<^verbatim>\<open>update\<close> on a detector with a non-negative bound: it returns, and
  touches exactly the seven windows of its station.\<close>

lemma update_Inr:
  assumes "0 \<le> window d"
  shows "\<exists>z d'. update d s mets = Inr (z, d') \<and> window d' = window d
    \<and> (\<forall>s' m. buffers d' s' m =
          (if s' = s \<and> m \<in> set METRIC_ORDER
           then deque_append (window d) (buffers d s m) (get_or mets m 0)
           else buffers d s' m))
    \<and> (\<forall>m. z m =
          (if m \<in> set METRIC_ORDER
           then Some (window_zscore (buffers d' s m) (get_or mets m 0)) else None))"
proof -
  obtain z bufs where
    loop: "update_loop (window d) mets METRIC_ORDER (Map.empty, buffers d s) = (z, bufs)"
    by (cases "update_loop (window d) mets METRIC_ORDER (Map.empty, buffers d s)")
  have b: "bufs m = (if m \<in> set METRIC_ORDER
      then deque_append (window d) (buffers d s m) (get_or mets m 0) else buffers d s m)" for m
    using update_loop_bufs [OF METRIC_ORDER_distinct, of "window d" mets Map.empty "buffers d s" m]
    by (simp add: loop)
  have zm: "z m = (if m \<in> set METRIC_ORDER
      then Some (window_zscore (deque_append (window d) (buffers d s m) (get_or mets m 0))
                  (get_or mets m 0)) else None)" for m
    using update_loop_zscores [OF METRIC_ORDER_distinct, of "window d" mets Map.empty "buffers d s" m]
    by (simp add: loop)
  have u: "update d s mets = Inr (z, d\<lparr>buffers := (buffers d)(s := bufs)\<rparr>)"
    using assms by (simp add: update_def loop)
  show ?thesis
    unfolding u by (intro exI conjI, rule refl) (simp_all add: b zm)
qed

text \<open>Any sequence of calls returns, and each window has grown by the number of calls
  for its station, up to the bound.\<close>

lemma run_updates_length:
  assumes "0 \<le> window d"
    and "\<forall>s m. int (length (buffers d s m)) \<le> window d"
  shows "\<exists>d'. run_updates d calls = Inr d' \<and> window d' = window d
    \<and> (\<forall>s m. length (buffers d' s m) =
          (if m \<in> set METRIC_ORDER
           then min (length (buffers d s m) + calls_for s calls) (nat (window d))
           else length (buffers d s m)))"
  using assms
proof (induction calls arbitrary: d)
  case Nil
  have "length (buffers d s m) \<le> nat (window d)" for s m
    using Nil.prems(2) [rule_format, of s m] by linarith
  then show ?case by (simp add: calls_for_def min_absorb1)
next
  case (Cons c calls)
  obtain s mets where c: "c = (s, mets)" by (cases c)
  from update_Inr [OF Cons.prems(1), of s mets] obtain z d1 where
    u: "update d s mets = Inr (z, d1)" and w1: "window d1 = window d"
    and b1: "\<And>s' m. buffers d1 s' m =
          (if s' = s \<and> m \<in> set METRIC_ORDER
           then deque_append (window d) (buffers d s m) (get_or mets m 0)
           else buffers d s' m)"
    by blast
  have len1: "length (buffers d1 s' m) =
      (if s' = s \<and> m \<in> set METRIC_ORDER
       then min (Suc (length (buffers d s m))) (nat (window d))
       else length (buffers d s' m))" for s' m
    using Cons.prems by (simp add: b1 length_deque_append)
  have bound1: "\<forall>s m. int (length (buffers d1 s m)) \<le> window d1"
    using Cons.prems by (auto simp: len1 w1)
  from Cons.IH [of d1] bound1 Cons.prems(1) w1 obtain d' where
    r: "run_updates d1 calls = Inr d'" and w': "window d' = window d1"
    and l': "\<And>s m. length (buffers d' s m) =
          (if m \<in> set METRIC_ORDER
           then min (length (buffers d1 s m) + calls_for s calls) (nat (window d1))
           else length (buffers d1 s m))"
    by auto
  have "run_updates d (c # calls) = Inr d'"
    by (simp add: c u r)
  moreover have "window d' = window d" by (simp add: w' w1)
  moreover have "length (buffers d' s' m) =
          (if m \<in> set METRIC_ORDER
           then min (length (buffers d s' m) + calls_for s' (c # calls)) (nat (window d))
           else length (buffers d s' m))" for s' m
    by (auto simp: l' len1 w1 c calls_for_def)
  ultimately show ?case by blast
qed

lemma run_updates_init:
  assumes "0 \<le> w"
  shows "\<exists>d. run_updates (RollingZScoreDetector_init w zt) calls = Inr d \<and> window d = w
    \<and> (\<forall>s m. length (buffers d s m) =
          (if m \<in> set METRIC_ORDER then min (calls_for s calls) (nat w) else 0))"
proof -
  let ?d0 = "RollingZScoreDetector_init w zt"
  have w0: "window ?d0 = w" and b0: "\<And>s m. buffers ?d0 s m = []"
    by (simp_all add: RollingZScoreDetector_init_def)
  have "0 \<le> window ?d0" and "\<forall>s m. int (length (buffers ?d0 s m)) \<le> window ?d0"
    using assms by (simp_all add: w0 b0)
  from run_updates_length [OF this, of calls] obtain d where
    "run_updates ?d0 calls = Inr d" "window d = w"
    "\<And>s m. length (buffers d s m) =
       (if m \<in> set METRIC_ORDER then min (calls_for s calls) (nat w) else 0)"
    unfolding w0 b0 by auto
  then show ?thesis by blast
qed

text \<open>
  C4. From a fresh detector, after any sequence of calls of which fewer than nine were
  for station \<open>s\<close>, the next \<^verbatim>\<open>update\<close> for \<open>s\<close> (one of its first nine) returns the
  z-score 0 for every recognized metric, whatever the values supplied. In general the
  value is 0 while the window, the new value included, holds fewer than 10 values, and
  is (value - mean) / (standard deviation, or 1e-6 when that is zero) of the window from
  then on.
\<close>

theorem warmup_zscore_zero:
  assumes "0 \<le> w" and "m \<in> set METRIC_ORDER"
  shows "\<exists>d z d'. run_updates (RollingZScoreDetector_init w zt) calls = Inr d
      \<and> update d s mets = Inr (z, d')
      \<and> (calls_for s calls < 9 \<longrightarrow> z m = Some 0)
      \<and> (length (buffers d' s m) < 10 \<longrightarrow> z m = Some 0)
      \<and> (10 \<le> length (buffers d' s m) \<longrightarrow>
           z m = Some ((get_or mets m 0 - mean (buffers d' s m))
                   / (if std_ddof1 (buffers d' s m) = 0 then 1 / 10 ^ 6
                      else std_ddof1 (buffers d' s m))))"
proof -
  from run_updates_init [OF assms(1), of zt calls] obtain d where
    r: "run_updates (RollingZScoreDetector_init w zt) calls = Inr d" and wd: "window d = w"
    and len: "\<And>s m. length (buffers d s m) =
          (if m \<in> set METRIC_ORDER then min (calls_for s calls) (nat w) else 0)"
    by blast
  from update_Inr [of d s mets] assms(1) wd obtain z d' where
    u: "update d s mets = Inr (z, d')"
    and b: "\<And>s' m. buffers d' s' m =
          (if s' = s \<and> m \<in> set METRIC_ORDER
           then deque_append (window d) (buffers d s m) (get_or mets m 0)
           else buffers d s' m)"
    and zm: "\<And>m. z m =
          (if m \<in> set METRIC_ORDER
           then Some (window_zscore (buffers d' s m) (get_or mets m 0)) else None)"
    by auto
  have z: "z m = Some (window_zscore (buffers d' s m) (get_or mets m 0))"
    using assms(2) by (simp add: zm)
  have "length (buffers d' s m) \<le> Suc (length (buffers d s m))"
    using assms(2) by (simp add: b deque_append_def Let_def)
  then have short: "calls_for s calls < 9 \<Longrightarrow> length (buffers d' s m) < 10"
    using assms(2) by (simp add: len)
  show ?thesis
    using r u short by (intro exI [of _ d] exI [of _ z] exI [of _ d']) (simp add: z window_zscore_def)
qed

theorem warmup_zscore_zero_witness:
  "(\<exists>d z d'. run_updates (RollingZScoreDetector_init 60 3)
        [(''IN-GJ-001'', [''tide_level_m'' \<mapsto> 1.2]), (''IN-GJ-001'', [''tide_level_m'' \<mapsto> 250])] = Inr d
      \<and> update d ''IN-GJ-001'' [''tide_level_m'' \<mapsto> 9000] = Inr (z, d')
      \<and> z ''tide_level_m'' = Some 0)
   \<and> (\<exists>d z d'. run_updates (RollingZScoreDetector_init 60 3)
        [(''IN-GJ-001'', Map.empty), (''IN-GJ-001'', Map.empty), (''IN-GJ-001'', Map.empty),
         (''IN-GJ-001'', Map.empty), (''IN-GJ-001'', Map.empty), (''IN-GJ-001'', Map.empty),
         (''IN-GJ-001'', Map.empty), (''IN-GJ-001'', Map.empty), (''IN-GJ-001'', Map.empty)] = Inr d
      \<and> update d ''IN-GJ-001'' [''tide_level_m'' \<mapsto> 10] = Inr (z, d')
      \<and> z ''tide_level_m'' = Some (9 / sqrt 10))"
proof -
  have warm: "\<exists>d z d'. run_updates (RollingZScoreDetector_init 60 3)
        [(''IN-GJ-001'', [''tide_level_m'' \<mapsto> 1.2]), (''IN-GJ-001'', [''tide_level_m'' \<mapsto> 250])] = Inr d
      \<and> update d ''IN-GJ-001'' [''tide_level_m'' \<mapsto> 9000] = Inr (z, d')
      \<and> z ''tide_level_m'' = Some 0"
    using warmup_zscore_zero [of 60 "''tide_level_m''" 3
        "[(''IN-GJ-001'', [''tide_level_m'' \<mapsto> 1.2]), (''IN-GJ-001'', [''tide_level_m'' \<mapsto> 250])]"
        "''IN-GJ-001''" "[''tide_level_m'' \<mapsto> 9000]"]
    by (simp add: METRIC_ORDER_def calls_for_def) blast
  have tenth: "\<exists>d z d'. run_updates (RollingZScoreDetector_init 60 3)
        [(''IN-GJ-001'', Map.empty), (''IN-GJ-001'', Map.empty), (''IN-GJ-001'', Map.empty),
         (''IN-GJ-001'', Map.empty), (''IN-GJ-001'', Map.empty), (''IN-GJ-001'', Map.empty),
         (''IN-GJ-001'', Map.empty), (''IN-GJ-001'', Map.empty), (''IN-GJ-001'', Map.empty)] = Inr d
      \<and> update d ''IN-GJ-001'' [''tide_level_m'' \<mapsto> 10] = Inr (z, d')
      \<and> z ''tide_level_m'' = Some (9 / sqrt 10)"
    using warmup_zscore_zero [of 60 "''tide_level_m''" 3
        "[(''IN-GJ-001'', Map.empty), (''IN-GJ-001'', Map.empty), (''IN-GJ-001'', Map.empty),
          (''IN-GJ-001'', Map.empty), (''IN-GJ-001'', Map.empty), (''IN-GJ-001'', Map.empty),
          (''IN-GJ-001'', Map.empty), (''IN-GJ-001'', Map.empty), (''IN-GJ-001'', Map.empty)]"
        "''IN-GJ-001''" "[''tide_level_m'' \<mapsto> 10]"]
    by (simp add: update_def RollingZScoreDetector_init_def METRIC_ORDER_def deque_append_def
        get_or_def Let_def mean_def std_ddof1_def)
  from warm tenth show ?thesis by blast
qed

text \<open>
  C5. From a fresh detector with bound \<open>w\<close>, after any sequence of calls, every window
  has length at most \<open>w\<close>; the window of a recognized metric has length
  min (number of calls for its station, \<open>w\<close>), so exactly \<open>w\<close> once there were at least
  \<open>w\<close> calls; one more \<^verbatim>\<open>update\<close> never shortens a window, and on a full window it
  drops the oldest value and appends the new one.
\<close>

theorem window_length_bounded:
  assumes "0 \<le> w"
  shows "\<exists>d. run_updates (RollingZScoreDetector_init w zt) calls = Inr d
      \<and> int (length (buffers d s m)) \<le> w
      \<and> (m \<in> set METRIC_ORDER \<longrightarrow> length (buffers d s m) = min (calls_for s calls) (nat w))
      \<and> (m \<in> set METRIC_ORDER \<and> w \<le> int (calls_for s calls) \<longrightarrow>
            int (length (buffers d s m)) = w)
      \<and> (\<forall>s' mets. \<exists>z d'. update d s' mets = Inr (z, d')
            \<and> length (buffers d s m) \<le> length (buffers d' s m)
            \<and> int (length (buffers d' s m)) \<le> w
            \<and> (s' = s \<and> m \<in> set METRIC_ORDER \<and> 0 < w \<and> int (length (buffers d s m)) = w \<longrightarrow>
                 buffers d' s m = tl (buffers d s m) @ [get_or mets m 0]))"
proof -
  from run_updates_init [OF assms, of zt calls] obtain d where
    r: "run_updates (RollingZScoreDetector_init w zt) calls = Inr d" and wd: "window d = w"
    and len: "\<And>s m. length (buffers d s m) =
          (if m \<in> set METRIC_ORDER then min (calls_for s calls) (nat w) else 0)"
    by blast
  have le: "int (length (buffers d s m)) \<le> w" for s m
    using assms by (cases "m \<in> set METRIC_ORDER") (simp_all add: len)
  have step: "\<exists>z d'. update d s' mets = Inr (z, d')
            \<and> length (buffers d s m) \<le> length (buffers d' s m)
            \<and> int (length (buffers d' s m)) \<le> w
            \<and> (s' = s \<and> m \<in> set METRIC_ORDER \<and> 0 < w \<and> int (length (buffers d s m)) = w \<longrightarrow>
                 buffers d' s m = tl (buffers d s m) @ [get_or mets m 0])" for s' mets
  proof -
    from update_Inr [of d s' mets] assms wd obtain z d' where
      u: "update d s' mets = Inr (z, d')"
      and b: "\<And>t m. buffers d' t m =
          (if t = s' \<and> m \<in> set METRIC_ORDER
           then deque_append (window d) (buffers d s' m) (get_or mets m 0)
           else buffers d t m)"
      by auto
    have l1: "length (buffers d' s m) =
        (if s = s' \<and> m \<in> set METRIC_ORDER then min (Suc (length (buffers d s m))) (nat w)
         else length (buffers d s m))"
      using assms le [of s' m] by (auto simp: b wd length_deque_append)
    have mono: "length (buffers d s m) \<le> length (buffers d' s m)"
      using le [of s m] by (auto simp: l1)
    have bound: "int (length (buffers d' s m)) \<le> w"
      using le [of s m] assms by (auto simp: l1)
    have evict: "buffers d' s m = tl (buffers d s m) @ [get_or mets m 0]"
      if "s' = s" "m \<in> set METRIC_ORDER" "0 < w" "int (length (buffers d s m)) = w"
    proof -
      have "buffers d s m \<noteq> []" using that by auto
      then show ?thesis using that by (simp add: b wd deque_append_def Let_def)
    qed
    show ?thesis using u mono bound evict by blast
  qed
  have eq: "int (length (buffers d s m)) = w"
    if "m \<in> set METRIC_ORDER" "w \<le> int (calls_for s calls)"
    using that assms by (simp add: len)
  have c2: "m \<in> set METRIC_ORDER \<longrightarrow> length (buffers d s m) = min (calls_for s calls) (nat w)"
    by (simp add: len)
  have c3: "m \<in> set METRIC_ORDER \<and> w \<le> int (calls_for s calls) \<longrightarrow>
      int (length (buffers d s m)) = w"
    using eq by blast
  from r le [of s m] c2 c3 step show ?thesis by blast
qed

theorem window_length_bounded_witness:
  "\<exists>d. run_updates (RollingZScoreDetector_init 2 3)
        [(''IN-GJ-001'', Map.empty), (''IN-MH-002'', Map.empty), (''IN-GJ-001'', Map.empty),
         (''IN-GJ-001'', Map.empty)] = Inr d
      \<and> length (buffers d ''IN-GJ-001'' ''rain_mm'') = 2"
  using window_length_bounded [of 2 3
      "[(''IN-GJ-001'', Map.empty), (''IN-MH-002'', Map.empty), (''IN-GJ-001'', Map.empty),
         (''IN-GJ-001'', Map.empty)]" "''IN-GJ-001''" "''rain_mm''"]
  by (simp add: METRIC_ORDER_def calls_for_def) blast

text \<open>
  In exact arithmetic a window whose values all equal the new value has that value as
  its mean and a standard deviation of zero, so the emitted z-score is 0. This is a fact
  about real numbers: in binary floating point the mean of \<open>n\<close> equal values need not be
  that value, and the deviation is then a small non-zero number (see below).
\<close>

lemma constant_window_exact:
  assumes "buf \<noteq> []" and "set buf \<subseteq> {x}"
  shows "mean buf = x" and "std_ddof1 buf = 0" and "window_zscore buf x = 0"
proof -
  have rep: "buf = replicate (length buf) x"
    using assms(2) by (induction buf) auto
  have len: "0 < length buf" using assms(1) by simp
  have "sum_list buf = real (length buf) * x"
    by (subst rep) (simp add: sum_list_replicate)
  then show m: "mean buf = x" using len by (simp add: mean_def)
  have "map (\<lambda>v. \<bar>v - x\<bar> ^ 2) buf = replicate (length buf) 0"
    by (subst rep) simp
  then have "sum_list (map (\<lambda>v. \<bar>v - mean buf\<bar> ^ 2) buf) = 0"
    by (simp add: m sum_list_replicate)
  then show "std_ddof1 buf = 0" by (simp add: std_ddof1_def)
  show "window_zscore buf x = 0" by (simp add: window_zscore_def m)
qed

subsection \<open>A constant window in double precision\<close>

lemma pairwise_sum_12:
  "pairwise_sum [x0, x1, x2, x3, x4, x5, x6, x7, x8, x9, x10, x11] =
     fadd (fadd (fadd (fadd
       (fadd (fadd (fadd x0 x1) (fadd x2 x3)) (fadd (fadd x4 x5) (fadd x6 x7))) x8) x9) x10) x11"
  by (subst pairwise_sum.simps) (simp add: acc8.simps)

text \<open>
  \<open>fl\<close> at a number whose binade is known.
\<close>

lemma fl_evalI:
  assumes "2 powi e \<le> \<bar>x\<bar>" and "\<bar>x\<bar> < 2 powi (e + 1)" and "fl_at e x = y"
  shows "fl x = y"
proof -
  have "0 < (2 :: real) powi e" by simp
  with assms(1) have pos: "0 < \<bar>x\<bar>" by linarith
  have p1: "2 powr real_of_int e = 2 powi e"
    by (simp add: powr_real_of_int')
  have p2: "2 powr (real_of_int e + 1) = 2 powi (e + 1)"
    using powr_real_of_int' [of 2 "e + 1"] by simp
  have "\<lfloor>log 2 \<bar>x\<bar>\<rfloor> = e"
    using assms pos by (simp add: floor_log_eq_powr_iff p1 p2)
  with pos assms(3) show ?thesis by (simp add: fl_def)
qed

lemma tenth_eq: "tenth = 3602879701896397 / 36028797018963968"
  unfolding tenth_def
  by (rule fl_evalI [where e = "- 4"])
    (simp_all add: fl_at_def round_half_even_def power_int_minus Let_def)

lemma twelve: "replicate 12 x = [x, x, x, x, x, x, x, x, x, x, x, x]"
  by (simp add: numeral_eq_Suc)

lemma sum_twelve_tenths:
  "np_sum (replicate 12 tenth) = 1351079888211149 / 1125899906842624"
proof -
  let ?a = "3602879701896397 / 36028797018963968 :: real"
  have s2: "fadd ?a ?a = 3602879701896397 / 18014398509481984"
    unfolding fadd_def by (rule fl_evalI [where e = "- 3"])
      (simp_all add: fl_at_def round_half_even_def power_int_minus Let_def)
  have s4: "fadd (3602879701896397 / 18014398509481984) (3602879701896397 / 18014398509481984)
      = 3602879701896397 / 9007199254740992"
    unfolding fadd_def by (rule fl_evalI [where e = "- 2"])
      (simp_all add: fl_at_def round_half_even_def power_int_minus Let_def)
  have s8: "fadd (3602879701896397 / 9007199254740992) (3602879701896397 / 9007199254740992)
      = 3602879701896397 / 4503599627370496"
    unfolding fadd_def by (rule fl_evalI [where e = "- 1"])
      (simp_all add: fl_at_def round_half_even_def power_int_minus Let_def)
  have s9: "fadd (3602879701896397 / 4503599627370496) ?a = 8106479329266893 / 9007199254740992"
    unfolding fadd_def by (rule fl_evalI [where e = "- 1"])
      (simp_all add: fl_at_def round_half_even_def power_int_minus Let_def)
  have s10: "fadd (8106479329266893 / 9007199254740992) ?a = 1"
    unfolding fadd_def by (rule fl_evalI [where e = 0])
      (simp_all add: fl_at_def round_half_even_def power_int_minus Let_def)
  have s11: "fadd 1 ?a = 2476979795053773 / 2251799813685248"
    unfolding fadd_def by (rule fl_evalI [where e = 0])
      (simp_all add: fl_at_def round_half_even_def power_int_minus Let_def)
  have s12: "fadd (2476979795053773 / 2251799813685248) ?a = 1351079888211149 / 1125899906842624"
    unfolding fadd_def by (rule fl_evalI [where e = 0])
      (simp_all add: fl_at_def round_half_even_def power_int_minus Let_def)
  have s0: "fadd 0 (1351079888211149 / 1125899906842624) = 1351079888211149 / 1125899906842624"
    unfolding fadd_def by (rule fl_evalI [where e = 0])
      (simp_all add: fl_at_def round_half_even_def power_int_minus Let_def)
  show ?thesis
    unfolding np_sum_def twelve pairwise_sum_12 tenth_eq
    by (simp only: s2 s4 s8 s9 s10 s11 s12 s0)
qed

lemma mean_twelve_tenths: "np_mean (replicate 12 tenth) = tenth + 1 / 2 ^ 56"
proof -
  have q: "fl (1351079888211149 / 1125899906842624 / 12) = 7205759403792795 / 72057594037927936"
    by (rule fl_evalI [where e = "- 4"])
      (simp_all add: fl_at_def round_half_even_def power_int_minus Let_def)
  have n: "real (length (replicate 12 tenth)) = 12" by simp
  have "np_mean (replicate 12 tenth) = 7205759403792795 / 72057594037927936"
    unfolding np_mean_def sum_twelve_tenths n by (rule q)
  also have "\<dots> = tenth + 1 / 2 ^ 56" by (simp add: tenth_eq)
  finally show ?thesis .
qed

text \<open>
  The deviations, their squares, the variance and its root for the same window.
\<close>

lemma round_half_even_up:
  assumes "of_int k + 1 / 2 < y" and "y < of_int k + 1"
  shows "round_half_even y = k + 1"
proof -
  have "\<lfloor>y\<rfloor> = k" using assms by linarith
  then show ?thesis using assms by (simp add: round_half_even_def Let_def)
qed

lemma deviation_twelve_tenths: "fl (tenth - (tenth + 1 / 2 ^ 56)) = - (1 / 2 ^ 56)"
  by (rule fl_evalI [where e = "- 56"])
    (simp_all add: fl_at_def round_half_even_def power_int_minus Let_def)

lemma square_twelve_tenths: "fl (- (1 / 2 ^ 56) * - (1 / 2 ^ 56)) = 1 / 2 ^ 112"
  by (rule fl_evalI [where e = "- 112"])
    (simp_all add: fl_at_def round_half_even_def power_int_minus Let_def)

lemma sum_twelve_squares: "np_sum (replicate 12 (1 / 2 ^ 112)) = 12 / 2 ^ 112"
proof -
  let ?q = "1 / 2 ^ 112 :: real"
  have s2: "fadd ?q ?q = 2 / 2 ^ 112"
    unfolding fadd_def by (rule fl_evalI [where e = "- 111"])
      (simp_all add: fl_at_def round_half_even_def power_int_minus Let_def)
  have s4: "fadd (2 / 2 ^ 112) (2 / 2 ^ 112) = 4 / 2 ^ 112"
    unfolding fadd_def by (rule fl_evalI [where e = "- 110"])
      (simp_all add: fl_at_def round_half_even_def power_int_minus Let_def)
  have s8: "fadd (4 / 2 ^ 112) (4 / 2 ^ 112) = 8 / 2 ^ 112"
    unfolding fadd_def by (rule fl_evalI [where e = "- 109"])
      (simp_all add: fl_at_def round_half_even_def power_int_minus Let_def)
  have s9: "fadd (8 / 2 ^ 112) ?q = 9 / 2 ^ 112"
    unfolding fadd_def by (rule fl_evalI [where e = "- 109"])
      (simp_all add: fl_at_def round_half_even_def power_int_minus Let_def)
  have s10: "fadd (9 / 2 ^ 112) ?q = 10 / 2 ^ 112"
    unfolding fadd_def by (rule fl_evalI [where e = "- 109"])
      (simp_all add: fl_at_def round_half_even_def power_int_minus Let_def)
  have s11: "fadd (10 / 2 ^ 112) ?q = 11 / 2 ^ 112"
    unfolding fadd_def by (rule fl_evalI [where e = "- 109"])
      (simp_all add: fl_at_def round_half_even_def power_int_minus Let_def)
  have s12: "fadd (11 / 2 ^ 112) ?q = 12 / 2 ^ 112"
    unfolding fadd_def by (rule fl_evalI [where e = "- 109"])
      (simp_all add: fl_at_def round_half_even_def power_int_minus Let_def)
  have s0: "fadd 0 (12 / 2 ^ 112) = 12 / 2 ^ 112"
    unfolding fadd_def by (rule fl_evalI [where e = "- 109"])
      (simp_all add: fl_at_def round_half_even_def power_int_minus Let_def)
  show ?thesis
    unfolding np_sum_def twelve pairwise_sum_12
    by (simp only: s2 s4 s8 s9 s10 s11 s12 s0)
qed

lemma variance_twelve_tenths: "fl (12 / 2 ^ 112 / 11) = 4913017775313268 / 2 ^ 164"
  by (rule fl_evalI [where e = "- 112"])
    (simp_all add: fl_at_def round_half_even_def power_int_minus Let_def)

lemma root_twelve_tenths:
  "fl (sqrt (4913017775313268 / 2 ^ 164)) = 4703856398973661 / 2 ^ 108"
proof -
  let ?N = "22126265022165457006633500540928 :: real"
  let ?r = "sqrt ?N"
  have N: "4913017775313268 / 2 ^ 164 = ?N / (2 ^ 108) ^ 2" by simp
  have r: "sqrt (4913017775313268 / 2 ^ 164) = ?r / 2 ^ 108"
    unfolding N by (simp only: real_sqrt_divide real_sqrt_abs abs_of_pos zero_less_power
        zero_less_numeral)
  have lo: "4703856398973660 + 1 / 2 < ?r"
    by (rule real_less_rsqrt) (simp add: power2_eq_square)
  have hi: "?r < 4703856398973660 + 1"
    by (rule real_less_lsqrt) (simp_all add: power2_eq_square)
  have rnd: "round_half_even ?r = 4703856398973660 + 1"
    using round_half_even_up [of 4703856398973660 ?r] lo hi by simp
  have q: "?r / 2 ^ 108 / 2 powi (- 56 - 52) = ?r"
    by (simp add: power_int_minus)
  show ?thesis
    unfolding r
  proof (rule fl_evalI [where e = "- 56"])
    show "2 powi - 56 \<le> \<bar>?r / 2 ^ 108\<bar>"
      using lo by (simp add: power_int_minus field_simps)
    show "\<bar>?r / 2 ^ 108\<bar> < 2 powi (- 56 + 1)"
      using hi by (simp add: power_int_minus field_simps)
    show "fl_at (- 56) (?r / 2 ^ 108) = 4703856398973661 / 2 ^ 108"
      unfolding fl_at_def q rnd by (simp add: power_int_minus)
  qed
qed

lemma std_twelve_tenths_eq:
  "np_std_ddof1 (replicate 12 tenth) = 4703856398973661 / 2 ^ 108"
proof -
  have mu: "fl (np_sum (replicate 12 tenth) / real (length (replicate 12 tenth)))
      = tenth + 1 / 2 ^ 56"
    using mean_twelve_tenths by (simp only: np_mean_def)
  have x2: "map (\<lambda>v. fl (v * v)) (map (\<lambda>v. fl (v - (tenth + 1 / 2 ^ 56))) (replicate 12 tenth))
      = replicate 12 (1 / 2 ^ 112)"
    by (simp only: map_replicate deviation_twelve_tenths square_twelve_tenths)
  have n: "real (length (replicate 12 tenth) - 1) = 11" by simp
  show ?thesis
    unfolding np_std_ddof1_def Let_def mu x2 sum_twelve_squares n variance_twelve_tenths
    by (rule root_twelve_tenths)
qed

lemma zscore_twelve_tenths_eq:
  "window_zscore_fl (replicate 12 tenth) tenth = - (134745886428933 / 140737488355328)"
proof -
  have q: "fl (- (1 / 2 ^ 56) / (4703856398973661 / 2 ^ 108))
      = - (134745886428933 / 140737488355328)"
    by (rule fl_evalI [where e = "- 1"])
      (simp_all add: fl_at_def round_half_even_def power_int_minus Let_def)
  have "window_zscore_fl (replicate 12 tenth) tenth
      = fl (fl (tenth - (tenth + 1 / 2 ^ 56)) / (4703856398973661 / 2 ^ 108))"
    by (simp add: window_zscore_fl_def Let_def mean_twelve_tenths std_twelve_tenths_eq)
  then show ?thesis
    by (simp only: deviation_twelve_tenths q)
qed

lemma window_after_twelve:
  "\<exists>d z d'. run_updates (RollingZScoreDetector_init 60 3)
        (replicate 11 (''IN-GJ-001'', [''tide_level_m'' \<mapsto> tenth])) = Inr d
      \<and> update d ''IN-GJ-001'' [''tide_level_m'' \<mapsto> tenth] = Inr (z, d')
      \<and> buffers d' ''IN-GJ-001'' ''tide_level_m'' = replicate 12 tenth"
  by (simp add: numeral_eq_Suc update_def RollingZScoreDetector_init_def METRIC_ORDER_def
      deque_append_def get_or_def Let_def)

text \<open>
  C6. In double precision a constant window does not give the z-score 0. On a fresh
  detector with the default window, twelve updates of one station with the value 0.1
  leave a window of twelve equal values. numpy's mean of that window is one unit in the
  last place above 0.1; the standard deviation is about 1.449e-17, not zero, so
  \<^verbatim>\<open>or 1e-6\<close> does not replace it; and the z-score of the twelfth update is about
  -0.957, not 0.
\<close>

theorem constant_window_double_precision:
  "\<exists>d z d'. run_updates (RollingZScoreDetector_init 60 3)
        (replicate 11 (''IN-GJ-001'', [''tide_level_m'' \<mapsto> tenth])) = Inr d
      \<and> update d ''IN-GJ-001'' [''tide_level_m'' \<mapsto> tenth] = Inr (z, d')
      \<and> buffers d' ''IN-GJ-001'' ''tide_level_m'' = replicate 12 tenth
      \<and> np_mean (buffers d' ''IN-GJ-001'' ''tide_level_m'') = tenth + 1 / 2 ^ 56
      \<and> np_std_ddof1 (buffers d' ''IN-GJ-001'' ''tide_level_m'') = 4703856398973661 / 2 ^ 108
      \<and> window_zscore_fl (buffers d' ''IN-GJ-001'' ''tide_level_m'') tenth
          = - (134745886428933 / 140737488355328)"
proof -
  from window_after_twelve obtain d z d' where
    "run_updates (RollingZScoreDetector_init 60 3)
        (replicate 11 (''IN-GJ-001'', [''tide_level_m'' \<mapsto> tenth])) = Inr d"
    and "update d ''IN-GJ-001'' [''tide_level_m'' \<mapsto> tenth] = Inr (z, d')"
    and "buffers d' ''IN-GJ-001'' ''tide_level_m'' = replicate 12 tenth"
    by blast
  then show ?thesis
    using mean_twelve_tenths std_twelve_tenths_eq zscore_twelve_tenths_eq by auto
qed

subsection \<open>The ensemble score\<close>

text \<open>
  C3. For every input sample, \<^verbatim>\<open>score\<close> returns a number between 0 and 1, and a detector
  that has not been fit (no model loaded) returns exactly 0 for every input.
\<close>

theorem score_range:
  "0 \<le> score score_samples self mets \<and> score score_samples self mets \<le> 1
     \<and> (clf self = None \<longrightarrow> score score_samples self mets = 0)"
  by (cases "clf self") (simp_all add: score_def clip_def Let_def)

theorem score_range_witness:
  "score (\<lambda>(c :: unit) x. 7) \<lparr>clf = None\<rparr> [''tide_level_m'' \<mapsto> 4] = 0"
  using score_range [of "\<lambda>(c :: unit) x. 7" "\<lparr>clf = None\<rparr>" "[''tide_level_m'' \<mapsto> 4]"]
  by simp

lemma outlier_estimate_range:
  assumes "0 < c_norm f" and "0 \<le> avg_path_length f x"
  shows "0 < outlier_estimate f x" and "outlier_estimate f x \<le> 1"
proof -
  show "0 < outlier_estimate f x" by (simp add: outlier_estimate_def)
  have "- avg_path_length f x / c_norm f \<le> 0"
    using assms by (simp add: divide_nonpos_pos)
  then have "2 powr (- avg_path_length f x / c_norm f) \<le> 2 powr 0"
    by (intro powr_mono) simp_all
  then show "outlier_estimate f x \<le> 1" by (simp add: outlier_estimate_def)
qed

text \<open>
  C2, as the code has it. For a fitted detector, \<^verbatim>\<open>score\<close> is
  clamp((0.5 - s) / 2, 0, 1) where \<open>s\<close> is the number the library's \<^verbatim>\<open>score_samples\<close>
  returns. That number is the negated outlier estimate, \<open>- 2 ^ (- h(x) / c(n))\<close>, so the
  score is clamp((0.5 + 2 ^ (- h(x) / c(n))) / 2, 0, 1); for a positive \<open>c(n)\<close> and a
  non-negative \<open>h(x)\<close> the clamp is idle and the score lies in (0.25, 0.75], larger for
  stronger outliers.
\<close>

theorem score_remap:
  "score score_samples \<lparr>clf = Some c\<rparr> mets
      = clip ((1 / 2 - score_samples c (sample_vector mets)) / 2) 0 1
   \<and> score sklearn_score_samples \<lparr>clf = Some f\<rparr> mets
      = clip ((1 / 2 + outlier_estimate f (sample_vector mets)) / 2) 0 1
   \<and> (0 < c_norm f \<and> 0 \<le> avg_path_length f (sample_vector mets) \<longrightarrow>
        score sklearn_score_samples \<lparr>clf = Some f\<rparr> mets
          = (1 / 2 + outlier_estimate f (sample_vector mets)) / 2
        \<and> 1 / 4 < score sklearn_score_samples \<lparr>clf = Some f\<rparr> mets
        \<and> score sklearn_score_samples \<lparr>clf = Some f\<rparr> mets \<le> 3 / 4)"
proof -
  have a: "score score_samples \<lparr>clf = Some c\<rparr> mets
      = clip ((1 / 2 - score_samples c (sample_vector mets)) / 2) 0 1"
    by (simp add: score_def Let_def)
  have b: "score sklearn_score_samples \<lparr>clf = Some f\<rparr> mets
      = clip ((1 / 2 + outlier_estimate f (sample_vector mets)) / 2) 0 1"
    by (simp add: score_def Let_def sklearn_score_samples_def)
  have c: "score sklearn_score_samples \<lparr>clf = Some f\<rparr> mets
          = (1 / 2 + outlier_estimate f (sample_vector mets)) / 2
        \<and> 1 / 4 < score sklearn_score_samples \<lparr>clf = Some f\<rparr> mets
        \<and> score sklearn_score_samples \<lparr>clf = Some f\<rparr> mets \<le> 3 / 4"
    if "0 < c_norm f" "0 \<le> avg_path_length f (sample_vector mets)"
    using outlier_estimate_range [OF that] unfolding b by (simp add: clip_def)
  from a b c show ?thesis by blast
qed

theorem score_remap_witness:
  "score sklearn_score_samples \<lparr>clf = Some \<lparr>avg_path_length = (\<lambda>x. 1), c_norm = 1\<rparr>\<rparr> Map.empty
     = 1 / 2"
  using score_remap [of "sklearn_score_samples" "\<lparr>avg_path_length = (\<lambda>x. 1), c_norm = 1\<rparr>" Map.empty
      "\<lparr>avg_path_length = (\<lambda>x. 1), c_norm = 1\<rparr>"]
  by (simp add: outlier_estimate_def powr_minus)

text \<open>
  C2 as worded takes \<open>s\<close> to be the outlier estimate itself. A forest with
  \<open>h(x) = c(n)\<close> (a typical point, estimate 0.5) is scored 0.5 by the code, while
  clamp((0.5 - 0.5) / 2, 0, 1) is 0.
\<close>

theorem score_remap_counterexample:
  "score sklearn_score_samples \<lparr>clf = Some \<lparr>avg_path_length = (\<lambda>x. 1), c_norm = 1\<rparr>\<rparr> Map.empty
     \<noteq> clip ((1 / 2 - outlier_estimate \<lparr>avg_path_length = (\<lambda>x. 1), c_norm = 1\<rparr>
                          (sample_vector Map.empty)) / 2) 0 1"
  by (simp add: score_def Let_def sklearn_score_samples_def outlier_estimate_def powr_minus clip_def)

subsection \<open>Loading the artifact\<close>

text \<open>
  C9, as the code has it. Constructing the detector with no path, with an empty path or
  with a path at which no file exists never raises: the detector is unfit and \<^verbatim>\<open>score\<close>
  returns 0 for every input. A failing \<^verbatim>\<open>joblib.load\<close> is not caught: the error leaves
  \<^verbatim>\<open>load\<close>, and it leaves the constructor when the file exists but cannot be read.
\<close>

theorem load_failure:
  "((model_path = None \<or> model_path = Some [] \<or> (\<exists>p. model_path = Some p \<and> \<not> path_exists p)) \<longrightarrow>
      IFDetector_init path_exists (joblib_load :: string \<Rightarrow> error + 'clf) model_path
        = Inr \<lparr>clf = None\<rparr>
      \<and> score score_samples (\<lparr>clf = None\<rparr> :: 'clf IFDetector) mets = 0)
   \<and> (joblib_load p = Inl e \<longrightarrow> load joblib_load self p = Inl e)
   \<and> (p \<noteq> [] \<and> path_exists p \<and> joblib_load p = Inl e \<longrightarrow>
        IFDetector_init path_exists joblib_load (Some p) = Inl e)"
  by (auto simp: IFDetector_init_def load_def score_def)

theorem load_failure_witness:
  "IFDetector_init (\<lambda>p. False) (\<lambda>p. (Inl LoadError :: error + unit)) (Some ''models/iforest.joblib'')
     = Inr \<lparr>clf = None\<rparr>
   \<and> score (\<lambda>c x. 0) (\<lparr>clf = None\<rparr> :: unit IFDetector) [''rain_mm'' \<mapsto> 3] = 0
   \<and> IFDetector_init (\<lambda>p. p = ''models/iforest.joblib'') (\<lambda>p. (Inl LoadError :: error + unit))
        (Some ''models/iforest.joblib'')
     = Inl LoadError"
  using load_failure [where model_path = "Some ''models/iforest.joblib''"
      and path_exists = "\<lambda>p. False" and joblib_load = "\<lambda>p. (Inl LoadError :: error + unit)"
      and score_samples = "\<lambda>c x. 0" and mets = "[''rain_mm'' \<mapsto> 3]"
      and p = "''models/iforest.joblib''" and e = LoadError
      and self = "\<lparr>clf = None\<rparr> :: unit IFDetector"]
    load_failure [where model_path = "None"
      and path_exists = "\<lambda>p. p = ''models/iforest.joblib''"
      and joblib_load = "\<lambda>p. (Inl LoadError :: error + unit)"
      and score_samples = "\<lambda>c x. 0" and mets = "[''rain_mm'' \<mapsto> 3]"
      and p = "''models/iforest.joblib''" and e = LoadError
      and self = "\<lparr>clf = None\<rparr> :: unit IFDetector"]
  by simp

text \<open>
  C9 as worded fails for a corrupt artifact: the file exists, \<^verbatim>\<open>joblib.load\<close> raises,
  and the constructor raises instead of yielding an unfit detector; \<^verbatim>\<open>load\<close> called on
  its own raises as well.
\<close>

theorem load_failure_counterexample:
  "IFDetector_init (\<lambda>p. True) (\<lambda>p. (Inl LoadError :: error + unit)) (Some ''models/iforest.joblib'')
     = Inl LoadError
   \<and> load (\<lambda>p. (Inl LoadError :: error + unit)) \<lparr>clf = None\<rparr> ''models/iforest.joblib''
     = Inl LoadError"
  by (simp add: IFDetector_init_def load_def)

subsection \<open>Alerts\<close>

lemma contains_strings: "contains (JList (map JStr ls)) s \<longleftrightarrow> s \<in> set ls"
  by auto

lemma ingest_alert_strings:
  assumes "ls \<noteq> []"
  shows "ingest_alert score_samples aid st payload (JList (map JStr ls)) =
     (Inr (Alert_created aid (JList (map JStr ls))),
      st\<lparr>alerts := alerts st @
        [\<lparr>alert_timestamp = timestamp payload,
          alert_station_id = station_id payload,
          threat_type = JStr (hd ls),
          severity = severity_spec ls,
          confidence = score score_samples (det_if st) (metrics payload),
          alert_payload = payload,
          alert_id = aid,
          acknowledged = False\<rparr>]\<rparr>)"
proof -
  obtain l ls' where ls: "ls = l # ls'" using assms by (cases ls) auto
  have sub: "subscript0 (JList (map JStr ls)) = Inr (JStr l)" by (simp add: ls)
  have tr: "truthy (JList (map JStr ls))" by (simp add: ls)
  show ?thesis
    unfolding ingest_alert_def Let_def contains_strings
    by (simp only: tr sub if_True sum.case bindable.simps not_True_eq_False if_False
        severity_spec_def) (simp add: ls)
qed

lemma ingest_alert_det_z: "det_z (snd (ingest_alert score_samples aid st payload labels)) = det_z st"
  by (simp add: ingest_alert_def Let_def split: sum.splits)

lemma ingest_alert_labels:
  "fst (ingest_alert score_samples aid st payload labels) = Inr r \<Longrightarrow> response_labels r = labels"
  by (auto simp: ingest_alert_def Let_def split: sum.splits if_splits)

lemma ingest_labels_detect:
  "\<not> already_flagged payload \<Longrightarrow>
   ingest_labels score_samples st payload = run_detection score_samples st payload"
  by (auto simp: ingest_labels_def already_flagged_def split: option.splits)

text \<open>
  C7. For every label list the labeler produces, the severity of the alert is "high" if
  the list contains possible_oil_spill or possible_flooding, else "medium" if it contains
  possible_algal_bloom, else "low": in the simulator's \<^verbatim>\<open>build_alert\<close>, and in the alert
  row that \<^verbatim>\<open>ingest\<close> stores when it ran the labeler itself and the list is not empty.
\<close>

theorem severity_derivation:
  "severity (build_alert stn p (label_threat mets z s)) = severity_spec (label_threat mets z s)
   \<and> (\<not> already_flagged payload \<and> 0 \<le> window (det_z st) \<longrightarrow>
        (\<exists>zs dz. update (det_z st) (station_id payload) (metrics payload) = Inr (zs, dz)
           \<and> (label_threat (metrics payload) zs
                  (score score_samples (det_if st) (metrics payload)) \<noteq> [] \<longrightarrow>
                map severity (alerts (snd (ingest score_samples rid aid st payload)))
                  = map severity (alerts st)
                    @ [severity_spec (label_threat (metrics payload) zs
                         (score score_samples (det_if st) (metrics payload)))])))"
proof -
  have a: "severity (build_alert stn p (label_threat mets z s))
      = severity_spec (label_threat mets z s)"
    by (simp add: build_alert_def severity_spec_def Let_def)
  have b: "\<exists>zs dz. update (det_z st) (station_id payload) (metrics payload) = Inr (zs, dz)
           \<and> (label_threat (metrics payload) zs
                  (score score_samples (det_if st) (metrics payload)) \<noteq> [] \<longrightarrow>
                map severity (alerts (snd (ingest score_samples rid aid st payload)))
                  = map severity (alerts st)
                    @ [severity_spec (label_threat (metrics payload) zs
                         (score score_samples (det_if st) (metrics payload)))])"
    if nf: "\<not> already_flagged payload" and w: "0 \<le> window (det_z st)"
  proof -
    from update_Inr [OF w, of "station_id payload" "metrics payload"] obtain zs dz where
      u: "update (det_z st) (station_id payload) (metrics payload) = Inr (zs, dz)" by blast
    let ?ls = "label_threat (metrics payload) zs (score score_samples (det_if st) (metrics payload))"
    have "map severity (alerts (snd (ingest score_samples rid aid st payload)))
                  = map severity (alerts st) @ [severity_spec ?ls]" if ne: "?ls \<noteq> []"
      by (simp add: ingest_def ingest_labels_detect [OF nf] run_detection_def u Let_def
          ingest_alert_strings [OF ne])
    with u show ?thesis by blast
  qed
  from a b show ?thesis by blast
qed

theorem severity_derivation_witness:
  "severity (build_alert first_station
       (build_ingest_payload ''2025-01-01T00:00:00Z'' first_station Map.empty
          [''chlorophyll_mg_m3'' \<mapsto> 3.5, ''turbidity_NTU'' \<mapsto> 2.5] 0 [''possible_algal_bloom''])
       (label_threat Map.empty [''chlorophyll_mg_m3'' \<mapsto> 3.5, ''turbidity_NTU'' \<mapsto> 2.5] 0))
     = ''medium''
   \<and> map severity (alerts (snd (ingest (\<lambda>c x. 0) ''r1'' ''a1'' fresh_backend oil_reading)))
     = [''high'']"
  using severity_derivation [where stn = first_station
      and p = "build_ingest_payload ''2025-01-01T00:00:00Z'' first_station Map.empty
          [''chlorophyll_mg_m3'' \<mapsto> 3.5, ''turbidity_NTU'' \<mapsto> 2.5] 0 [''possible_algal_bloom'']"
      and mets = Map.empty and z = "[''chlorophyll_mg_m3'' \<mapsto> 3.5, ''turbidity_NTU'' \<mapsto> 2.5]"
      and s = 0 and payload = oil_reading and st = fresh_backend
      and score_samples = "\<lambda>c x. 0" and rid = "''r1''" and aid = "''a1''"]
  by (simp add: fresh_backend_def oil_reading_def ingest_def ingest_labels_def
      run_detection_def update_def RollingZScoreDetector_init_def METRIC_ORDER_def
      deque_append_def get_or_def Let_def score_def label_threat_def ingest_alert_def
      severity_spec_def already_flagged_def)

text \<open>
  C8. In \<^verbatim>\<open>ingest\<close> the confidence of an alert is the ensemble score as it is, with no
  floor: on a backend without a model, a reading with an oil-slick score of 0.5 raises
  the alert possible_oil_spill (the first label is the threat type) with confidence 0.
\<close>

theorem ingest_confidence_not_floored:
  "fst (ingest (\<lambda>c x. 0) ''r1'' ''a1'' fresh_backend oil_reading)
        = Inr (Alert_created ''a1'' (JList [JStr ''possible_oil_spill'']))
   \<and> map threat_type (alerts (snd (ingest (\<lambda>c x. 0) ''r1'' ''a1'' fresh_backend oil_reading)))
        = [JStr ''possible_oil_spill'']
   \<and> map confidence (alerts (snd (ingest (\<lambda>c x. 0) ''r1'' ''a1'' fresh_backend oil_reading)))
        = [0]"
  by (simp add: fresh_backend_def oil_reading_def ingest_def ingest_labels_def
      run_detection_def update_def RollingZScoreDetector_init_def METRIC_ORDER_def
      deque_append_def get_or_def Let_def score_def label_threat_def ingest_alert_def)

text \<open>
  The simulator's \<^verbatim>\<open>build_alert\<close> does floor the confidence: it is the larger of 0.5
  and the score rounded to three decimals, and the threat type is the first label.
\<close>

lemma build_alert_floor:
  "1 / 2 \<le> confidence (build_alert stn p labels)
   \<and> confidence (build_alert stn (build_ingest_payload now stn mets z if_score labels) labels)
       = max (1 / 2) (py_round if_score 3)
   \<and> (labels \<noteq> [] \<longrightarrow> threat_type (build_alert stn p labels) = hd labels)"
  by (cases labels) (simp_all add: build_alert_def build_ingest_payload_def Let_def)

text \<open>
  C10. When the payload's \<^verbatim>\<open>anomaly\<close> field is a non-empty dictionary whose
  \<^verbatim>\<open>is_anomaly\<close> is truthy, \<^verbatim>\<open>ingest\<close> takes the labels from the payload as they are
  (the default is the empty list) and runs no detection: the rolling z-score detector,
  with all its windows, is the one it was before the call, and the labels of the
  response are the payload's.
\<close>

theorem flagged_payload_no_detection:
  assumes "anomaly payload = Some a" and "a \<noteq> []"
    and "truthy (get_or (map_of a) ''is_anomaly'' JNull)"
  shows "ingest_labels score_samples st payload = (Inr (get_or (map_of a) ''labels'' (JList [])), st)
    \<and> det_z (snd (ingest score_samples rid aid st payload)) = det_z st
    \<and> (\<forall>r. fst (ingest score_samples rid aid st payload) = Inr r \<longrightarrow>
          response_labels r = get_or (map_of a) ''labels'' (JList []))"
proof -
  have l: "ingest_labels score_samples st' payload
      = (Inr (get_or (map_of a) ''labels'' (JList [])), st')" for st' :: "'a backend"
    using assms by (simp add: ingest_labels_def)
  have d: "det_z (snd (ingest score_samples rid aid st payload)) = det_z st"
    by (simp add: ingest_def l Let_def ingest_alert_det_z)
  have r: "response_labels r = get_or (map_of a) ''labels'' (JList [])"
    if "fst (ingest score_samples rid aid st payload) = Inr r" for r
    using that by (simp add: ingest_def l Let_def ingest_alert_labels)
  from l d r show ?thesis by blast
qed

theorem flagged_payload_no_detection_witness:
  "det_z (snd (ingest (\<lambda>c x. 0) ''r1'' ''a1'' fresh_backend flagged_reading)) = det_z fresh_backend
   \<and> fst (ingest (\<lambda>c x. 0) ''r1'' ''a1'' fresh_backend flagged_reading)
       = Inr (Alert_created ''a1'' (JList [JStr ''possible_flooding'', JStr ''possible_oil_spill'']))"
  using flagged_payload_no_detection [where payload = flagged_reading
      and a = "[(''is_anomaly'', JBool True),
        (''detectors'', JDict [(''rolling_z'', JDict []), (''iforest'', JNum 0)]),
        (''labels'', JList [JStr ''possible_flooding'', JStr ''possible_oil_spill''])]"
      and score_samples = "\<lambda>c x. 0" and st = fresh_backend and rid = "''r1''" and aid = "''a1''"]
  by (simp add: flagged_reading_def oil_reading_def fresh_backend_def get_or_def
      ingest_def ingest_labels_def ingest_alert_def Let_def score_def)

end
